theory Spec2Isabelle
  imports Main
begin

section \<open>The spot-instance aspect of cdk-fck-nat\<close>

text \<open>
  A shallow embedding of \<^verbatim>\<open>src/aspects/spot-instance-aspect.ts\<close>: the class
  \<^verbatim>\<open>FckNatSpotInstanceAspect\<close> with its methods \<^verbatim>\<open>visit\<close>,
  \<^verbatim>\<open>convertToSpotInstance\<close> and \<^verbatim>\<open>getInstanceTypeFromAsg\<close>.
  The methods mutate the visited construct and its default child in place and write to the
  console; here they take the state and return the new one. A JavaScript exception is the
  left summand of the result.
\<close>

subsection \<open>Configuration of the aspect\<close>

text \<open>
  \<^verbatim>\<open>spotAllocationStrategy?: 'lowest-price' | 'capacity-optimized' | 'capacity-optimized-prioritized'\<close>
  is a closed union of string literals; \<open>strategyString\<close> gives the literal back.
\<close>

datatype SpotAllocationStrategy = LowestPrice | CapacityOptimized | CapacityOptimizedPrioritized

fun strategyString :: "SpotAllocationStrategy \<Rightarrow> string" where
  "strategyString LowestPrice = ''lowest-price''"
| "strategyString CapacityOptimized = ''capacity-optimized''"
| "strategyString CapacityOptimizedPrioritized = ''capacity-optimized-prioritized''"

text \<open>Both options are optional: \<open>None\<close> is \<^verbatim>\<open>undefined\<close>.\<close>

record FckNatSpotInstanceAspectProps =
  spotMaxPrice :: "string option"
  spotAllocationStrategy :: "SpotAllocationStrategy option"

subsection \<open>The CloudFormation property types the aspect reads and builds\<close>

text \<open>
  The property types of \<^verbatim>\<open>autoscaling.CfnAutoScalingGroup\<close> that the source
  names, with the fields it reads or writes. An optional field is an \<open>option\<close>.
  Field names that occur in two of the types carry a prefix in the second
  (\<open>mip_launchTemplate\<close>, \<open>dist_spotAllocationStrategy\<close>, \<open>dist_spotMaxPrice\<close>).
\<close>

record LaunchTemplateSpecificationProperty =
  launchTemplateId :: "string option"
  launchTemplateName :: "string option"
  version :: string

record LaunchTemplateOverridesProperty =
  instanceType :: "string option"

record LaunchTemplateProperty =
  launchTemplateSpecification :: LaunchTemplateSpecificationProperty
  overrides :: "LaunchTemplateOverridesProperty list option"

record InstancesDistributionProperty =
  onDemandPercentageAboveBaseCapacity :: "int option"
  dist_spotAllocationStrategy :: "string option"
  dist_spotMaxPrice :: "string option"

record MixedInstancesPolicyProperty =
  mip_launchTemplate :: LaunchTemplateProperty
  instancesDistribution :: "InstancesDistributionProperty option"

subsection \<open>The resource behind the construct\<close>

text \<open>
  The default child of the auto scaling group, as far as the aspect touches it: the two
  attributes \<^verbatim>\<open>launchTemplate\<close> and \<^verbatim>\<open>mixedInstancesPolicy\<close> of the
  resource object, and its raw overrides. \<open>rawOverrides\<close> is the object
  \<^verbatim>\<open>rawOverrides.Properties\<close>, by property name: no entry, an entry
  \<^verbatim>\<open>undefined\<close> (the property is deleted when the template is synthesized), or
  an entry with a value or with nested overrides, which the aspect never inspects and
  which is kept as an opaque text.
  The property bag of a node is this resource object: what a reader or a later pass
  finds there are the attributes.
  \<open>cfnResourceType\<close> is the CloudFormation type of the resource; the cast in
  \<^verbatim>\<open>asg.node.defaultChild as autoscaling.CfnAutoScalingGroup\<close> is unchecked, so
  the type may be any.
\<close>

datatype raw_override = OverrideUndefined | OverrideValue string

record CfnResource =
  cfnResourceType :: string
  launchTemplate :: "LaunchTemplateSpecificationProperty option"
  mixedInstancesPolicy :: "MixedInstancesPolicyProperty option"
  rawOverrides :: "string \<Rightarrow> raw_override option"

text \<open>
  \<^verbatim>\<open>addPropertyDeletionOverride(path)\<close> of aws-cdk-lib's \<^verbatim>\<open>CfnResource\<close>
  assigns \<^verbatim>\<open>rawOverrides.Properties[path] = undefined\<close> (for a path without a
  period, as the aspect's is), in place of whatever override the property had. It does
  not assign the attribute of the resource object: \<^verbatim>\<open>cfnAsg.launchTemplate\<close>
  reads the same value after the call as before.
\<close>

definition addPropertyDeletionOverride :: "string \<Rightarrow> CfnResource \<Rightarrow> CfnResource" where
  "addPropertyDeletionOverride p r = r\<lparr>rawOverrides := (rawOverrides r)(p \<mapsto> OverrideUndefined)\<rparr>"

subsection \<open>Constructs\<close>

text \<open>
  The parent of the auto scaling group is probed with
  \<^verbatim>\<open>'instanceType' in parent\<close> and \<^verbatim>\<open>instanceType?.toString()\<close>: the
  property is not there; is there with a nullish value; has a value whose
  \<^verbatim>\<open>toString()\<close> is the given string; has a value that is not nullish and has
  no callable \<^verbatim>\<open>toString\<close> (the call is then a TypeError, which
  \<^verbatim>\<open>?.\<close> does not guard); or reading the property or rendering its value throws
  an exception of the parent's own.
\<close>

datatype parent_property =
  PropertyMissing | PropertyNullish | PropertyValue string | PropertyUncallable | PropertyThrows

record scope_construct =
  scope_id :: string
  parent_instanceType :: parent_property

text \<open>
  \<open>kind\<close> is what \<^verbatim>\<open>node instanceof autoscaling.AutoScalingGroup\<close> tests;
  \<open>OtherConstruct\<close> carries the name of any other class. \<open>node_scope\<close> and
  \<open>defaultChild\<close> are \<open>None\<close> when \<^verbatim>\<open>undefined\<close>. \<open>node_metadata\<close> is the
  list of (type, data) entries that \<^verbatim>\<open>node.addMetadata\<close> appends to.
  The fields \<open>node_id\<close>, \<open>node_path\<close>, \<open>node_scope\<close> and \<open>defaultChild\<close> are
  \<^verbatim>\<open>node.id\<close>, \<^verbatim>\<open>node.path\<close>, \<^verbatim>\<open>node.scope\<close> and
  \<^verbatim>\<open>node.defaultChild\<close> of the construct.
\<close>

datatype construct_kind = AutoScalingGroup | OtherConstruct string

record construct =
  node_id :: string
  node_path :: string
  kind :: construct_kind
  node_scope :: "scope_construct option"
  defaultChild :: "CfnResource option"
  node_metadata :: "(string \<times> string) list"

definition addMetadata :: "string \<Rightarrow> string \<Rightarrow> construct \<Rightarrow> construct" where
  "addMetadata ty data c = c\<lparr>node_metadata := node_metadata c @ [(ty, data)]\<rparr>"

text \<open>The state: the visited construct and what was written to the console.\<close>

datatype console_level = LogLevel | WarnLevel | ErrorLevel

record world =
  target :: construct
  console :: "(console_level \<times> string) list"

text \<open>
  \<open>TypeError\<close> is raised by the JavaScript of the aspect itself; \<open>Thrown\<close> is an
  exception that code outside the aspect throws into it.
\<close>

datatype js_error = TypeError | Thrown

text \<open>
  The methods return \<^verbatim>\<open>void\<close>. The model of \<^verbatim>\<open>convertToSpotInstance\<close>
  returns, beside the state, which of its two exits was taken: the early
  \<^verbatim>\<open>return\<close> after the warning, or the end of the body with the policy it
  installed.
\<close>

datatype SkipReason = NoLaunchTemplateFound

datatype RewriteOutcome = Mutated MixedInstancesPolicyProperty | Skipped SkipReason

subsection \<open>The methods\<close>

text \<open>JavaScript truthiness of a \<^verbatim>\<open>string | undefined\<close>: the empty string is falsy.\<close>

definition truthy :: "string option \<Rightarrow> bool" where
  "truthy v = (case v of None \<Rightarrow> False | Some s \<Rightarrow> s \<noteq> [])"

definition getInstanceTypeFromAsg :: "construct \<Rightarrow> js_error + string option" where
  "getInstanceTypeFromAsg asg =
     (case node_scope asg of
        None \<Rightarrow> Inr None
      | Some parent \<Rightarrow>
          (case parent_instanceType parent of
             PropertyMissing \<Rightarrow> Inr None
           | PropertyNullish \<Rightarrow> Inr None
           | PropertyValue s \<Rightarrow> Inr (Some s)
           | PropertyUncallable \<Rightarrow> Inl TypeError
           | PropertyThrows \<Rightarrow> Inl Thrown))"

text \<open>The object literal of lines 88 to 105, from the launch template that was read.\<close>

definition mixedInstancesPolicyOf ::
  "FckNatSpotInstanceAspectProps \<Rightarrow> LaunchTemplateSpecificationProperty \<Rightarrow> string option
     \<Rightarrow> MixedInstancesPolicyProperty" where
  "mixedInstancesPolicyOf props lt hint =
     (let allocationStrategy =
            (case spotAllocationStrategy props of
               None \<Rightarrow> ''capacity-optimized''
             | Some s \<Rightarrow> strategyString s)
      in \<lparr> mip_launchTemplate =
             \<lparr> launchTemplateSpecification =
                 \<lparr> launchTemplateId = launchTemplateId lt,
                   launchTemplateName = None,
                   version = version lt \<rparr>,
               overrides =
                 (if truthy hint then Some [\<lparr> instanceType = hint \<rparr>] else None) \<rparr>,
           instancesDistribution =
             Some \<lparr> onDemandPercentageAboveBaseCapacity = Some 0,
                    dist_spotAllocationStrategy = Some allocationStrategy,
                    dist_spotMaxPrice =
                      (if truthy (spotMaxPrice props) then spotMaxPrice props else None) \<rparr> \<rparr>)"

text \<open>The entry that \<^verbatim>\<open>console.warn\<close> writes in line 74.\<close>

definition warning :: "construct \<Rightarrow> console_level \<times> string" where
  "warning asg =
     (WarnLevel,
      ''FckNatSpotInstanceAspect: Could not find launch template for ASG '' @ node_path asg)"

text \<open>
  Line 71 reads a property of the default child, which throws a TypeError when there is
  no default child. Line 73 tests the launch template, an object or
  \<^verbatim>\<open>undefined\<close>. Line 82 probes the parent, after the guard and before any
  effect; an exception there leaves the method. Lines 85, 107 and 110 are the three
  effects on the resource and the construct, in this order.
\<close>

definition convertToSpotInstance ::
  "FckNatSpotInstanceAspectProps \<Rightarrow> world \<Rightarrow> js_error + (RewriteOutcome \<times> world)" where
  "convertToSpotInstance props w =
     (let asg = target w in
      case defaultChild asg of
        None \<Rightarrow> Inl TypeError
      | Some cfnAsg \<Rightarrow>
          (case launchTemplate cfnAsg of
             None \<Rightarrow>
               Inr (Skipped NoLaunchTemplateFound, w\<lparr>console := console w @ [warning asg]\<rparr>)
           | Some lt \<Rightarrow>
               (case getInstanceTypeFromAsg asg of
                  Inl e \<Rightarrow> Inl e
                | Inr hint \<Rightarrow>
                    (let cfn1 = addPropertyDeletionOverride ''LaunchTemplate'' cfnAsg;
                         policy = mixedInstancesPolicyOf props lt hint;
                         cfn2 = cfn1\<lparr>mixedInstancesPolicy := Some policy\<rparr>;
                         asg' = addMetadata ''fck-nat:spot-enabled'' ''true''
                                  (asg\<lparr>defaultChild := Some cfn2\<rparr>)
                     in Inr (Mutated policy, w\<lparr>target := asg'\<rparr>)))))"

definition visit :: "FckNatSpotInstanceAspectProps \<Rightarrow> world \<Rightarrow> js_error + world" where
  "visit props w =
     (if kind (target w) = AutoScalingGroup then
        (if node_id (target w) = ''FckNatAsg'' then
           (case convertToSpotInstance props w of
              Inl e \<Rightarrow> Inl e
            | Inr (outcome, w') \<Rightarrow> Inr w')
         else Inr w)
      else Inr w)"

subsection \<open>The states a rewrite passes through\<close>

text \<open>
  \<open>convertStates\<close> lists the state after each statement of
  \<^verbatim>\<open>convertToSpotInstance\<close> that has an effect: after the warning of line 74 on
  the early return; otherwise after the deletion override of line 85, after the assignment
  of line 107 and after the metadata entry of line 110. Nothing is listed when line 71 or
  line 82 throws: there has been no effect then.
\<close>

definition convertStates :: "FckNatSpotInstanceAspectProps \<Rightarrow> world \<Rightarrow> world list" where
  "convertStates props w =
     (let asg = target w in
      case defaultChild asg of
        None \<Rightarrow> []
      | Some cfnAsg \<Rightarrow>
          (case launchTemplate cfnAsg of
             None \<Rightarrow> [w\<lparr>console := console w @ [warning asg]\<rparr>]
           | Some lt \<Rightarrow>
               (case getInstanceTypeFromAsg asg of
                  Inl e \<Rightarrow> []
                | Inr hint \<Rightarrow>
                    (let cfn1 = addPropertyDeletionOverride ''LaunchTemplate'' cfnAsg;
                         policy = mixedInstancesPolicyOf props lt hint;
                         cfn2 = cfn1\<lparr>mixedInstancesPolicy := Some policy\<rparr>
                     in [w\<lparr>target := asg\<lparr>defaultChild := Some cfn1\<rparr>\<rparr>,
                         w\<lparr>target := asg\<lparr>defaultChild := Some cfn2\<rparr>\<rparr>,
                         w\<lparr>target := addMetadata ''fck-nat:spot-enabled'' ''true''
                                        (asg\<lparr>defaultChild := Some cfn2\<rparr>)\<rparr>]))))"

text \<open>
  What a later pass or any other reader of the resource object finds: \<open>bothAttributes\<close>
  holds of a state whose resource has the attribute \<^verbatim>\<open>launchTemplate\<close> and the
  attribute \<^verbatim>\<open>mixedInstancesPolicy\<close> set at once; \<open>deletionRecorded\<close> holds
  when the raw overrides of the resource delete the property
  \<^verbatim>\<open>LaunchTemplate\<close>.
\<close>

definition bothAttributes :: "world \<Rightarrow> bool" where
  "bothAttributes w =
     (case defaultChild (target w) of
        None \<Rightarrow> False
      | Some r \<Rightarrow> launchTemplate r \<noteq> None \<and> mixedInstancesPolicy r \<noteq> None)"

definition deletionRecorded :: "world \<Rightarrow> bool" where
  "deletionRecorded w =
     (case defaultChild (target w) of
        None \<Rightarrow> False
      | Some r \<Rightarrow> rawOverrides r ''LaunchTemplate'' = Some OverrideUndefined)"

subsection \<open>A sample tree\<close>

text \<open>
  The auto scaling group that the provider creates with the identifier
  \<^verbatim>\<open>FckNatAsg\<close>, with a launch template and, here, a parent that has an
  \<^verbatim>\<open>instanceType\<close>; and the states that the rewrite makes of it.
  \<open>defaultProps\<close> is the constructor's default \<^verbatim>\<open>{}\<close>.
\<close>

definition defaultProps :: FckNatSpotInstanceAspectProps where
  "defaultProps = \<lparr> spotMaxPrice = None, spotAllocationStrategy = None \<rparr>"

definition sampleTemplate :: LaunchTemplateSpecificationProperty where
  "sampleTemplate =
     \<lparr> launchTemplateId = Some ''lt-0abc'', launchTemplateName = None, version = ''1'' \<rparr>"

definition sampleResource :: CfnResource where
  "sampleResource =
     \<lparr> cfnResourceType = ''AWS::AutoScaling::AutoScalingGroup'',
       launchTemplate = Some sampleTemplate,
       mixedInstancesPolicy = None,
       rawOverrides = Map.empty \<rparr>"

definition sampleParent :: "string \<Rightarrow> scope_construct" where
  "sampleParent ty = \<lparr> scope_id = ''PublicSubnet1'', parent_instanceType = PropertyValue ty \<rparr>"

definition sampleAsg :: "scope_construct option \<Rightarrow> CfnResource option \<Rightarrow> construct" where
  "sampleAsg parent child =
     \<lparr> node_id = ''FckNatAsg'',
       node_path = ''Stack/VPC/PublicSubnet1/FckNatAsg'',
       kind = AutoScalingGroup,
       node_scope = parent,
       defaultChild = child,
       node_metadata = [] \<rparr>"

definition worldOf :: "scope_construct option \<Rightarrow> CfnResource option \<Rightarrow> world" where
  "worldOf parent child = \<lparr> target = sampleAsg parent child, console = [] \<rparr>"

definition sampleWorld :: world where
  "sampleWorld = worldOf (Some (sampleParent ''t4g.nano'')) (Some sampleResource)"

definition samplePolicy ::
  "LaunchTemplateOverridesProperty list option \<Rightarrow> string option
     \<Rightarrow> MixedInstancesPolicyProperty" where
  "samplePolicy ovr price =
     \<lparr> mip_launchTemplate =
         \<lparr> launchTemplateSpecification = sampleTemplate, overrides = ovr \<rparr>,
       instancesDistribution =
         Some \<lparr> onDemandPercentageAboveBaseCapacity = Some 0,
                dist_spotAllocationStrategy = Some ''capacity-optimized'',
                dist_spotMaxPrice = price \<rparr> \<rparr>"

definition nanoPolicy :: MixedInstancesPolicyProperty where
  "nanoPolicy = samplePolicy (Some [\<lparr> instanceType = Some ''t4g.nano'' \<rparr>]) None"

definition rewrittenResource :: "MixedInstancesPolicyProperty \<Rightarrow> CfnResource" where
  "rewrittenResource policy =
     \<lparr> cfnResourceType = ''AWS::AutoScaling::AutoScalingGroup'',
       launchTemplate = Some sampleTemplate,
       mixedInstancesPolicy = Some policy,
       rawOverrides = [''LaunchTemplate'' \<mapsto> OverrideUndefined] \<rparr>"

definition marker :: "string \<times> string" where
  "marker = (''fck-nat:spot-enabled'', ''true'')"

definition rewrittenWorld ::
  "scope_construct option \<Rightarrow> MixedInstancesPolicyProperty \<Rightarrow> (string \<times> string) list
     \<Rightarrow> world" where
  "rewrittenWorld parent policy ms =
     \<lparr> target = (sampleAsg parent (Some (rewrittenResource policy)))\<lparr>node_metadata := ms\<rparr>,
       console = [] \<rparr>"

section \<open>Properties\<close>

subsection \<open>Evaluating the sample and unfolding the methods\<close>

lemmas method_defs =
  convertToSpotInstance_def mixedInstancesPolicyOf_def getInstanceTypeFromAsg_def
  addPropertyDeletionOverride_def addMetadata_def truthy_def warning_def

lemmas sample_defs =
  defaultProps_def sampleTemplate_def sampleResource_def sampleParent_def sampleAsg_def
  worldOf_def sampleWorld_def samplePolicy_def nanoPolicy_def rewrittenResource_def marker_def
  rewrittenWorld_def

lemma convert_sample:
  "convertToSpotInstance defaultProps sampleWorld =
     Inr (Mutated nanoPolicy, rewrittenWorld (Some (sampleParent ''t4g.nano'')) nanoPolicy [marker])"
  by (simp add: method_defs sample_defs Let_def)

lemma visit_matched:
  assumes "kind (target w) = AutoScalingGroup" and "node_id (target w) = ''FckNatAsg''"
  shows "visit props w =
           (case convertToSpotInstance props w of
              Inl e \<Rightarrow> Inl e
            | Inr (outcome, w') \<Rightarrow> Inr w')"
  using assms by (simp add: visit_def)

lemma visit_unmatched:
  assumes "\<not> (kind (target w) = AutoScalingGroup \<and> node_id (target w) = ''FckNatAsg'')"
  shows "visit props w = Inr w"
  using assms by (auto simp: visit_def)

text \<open>
  A call of the rewriter always leaves a trace: it throws, or it writes a warning, or it
  appends a metadata entry. So its result is never the state it was given.
\<close>

lemma convert_leaves_trace: "convertToSpotInstance props w \<noteq> Inr (outcome, w)"
proof
  assume eq: "convertToSpotInstance props w = Inr (outcome, w)"
  show False
  proof (cases "defaultChild (target w)")
    case None
    with eq show False by (simp add: convertToSpotInstance_def)
  next
    case (Some cfnAsg)
    show False
    proof (cases "launchTemplate cfnAsg")
      case None
      with Some eq have "w\<lparr>console := console w @ [warning (target w)]\<rparr> = w"
        by (simp add: convertToSpotInstance_def)
      from arg_cong [OF this, of console] show False by simp
    next
      case (Some lt)
      with \<open>defaultChild (target w) = Some cfnAsg\<close> eq
      obtain c where c: "w\<lparr>target := addMetadata ''fck-nat:spot-enabled'' ''true'' c\<rparr> = w"
        and c': "node_metadata c = node_metadata (target w)"
        by (auto simp: convertToSpotInstance_def Let_def split: sum.splits)
      from arg_cong [OF c(1), of "\<lambda>v. node_metadata (target v)"] c'
      show False by (simp add: addMetadata_def)
    qed
  qed
qed

subsection \<open>The claims\<close>

text \<open>
  C4. \<^verbatim>\<open>visit\<close> hands the node to the rewriter if and only if the node is an
  auto scaling group and its construct identifier is \<^verbatim>\<open>FckNatAsg\<close>: exactly then
  is the result of \<^verbatim>\<open>visit\<close> the result of \<^verbatim>\<open>convertToSpotInstance\<close>
  (which is never the unchanged state). A node with only one of the two, the identifier
  under another class or an auto scaling group under another identifier, comes back as
  it was.
\<close>

theorem visit_delegates_iff_match:
  "(visit props w =
      (case convertToSpotInstance props w of
         Inl e \<Rightarrow> Inl e
       | Inr (outcome, w') \<Rightarrow> Inr w'))
     = (kind (target w) = AutoScalingGroup \<and> node_id (target w) = ''FckNatAsg'')
   \<and> (kind (target w) = AutoScalingGroup \<and> node_id (target w) \<noteq> ''FckNatAsg''
        \<longrightarrow> visit props w = Inr w)
   \<and> (kind (target w) \<noteq> AutoScalingGroup \<and> node_id (target w) = ''FckNatAsg''
        \<longrightarrow> visit props w = Inr w)"
proof -
  have "visit props w \<noteq>
          (case convertToSpotInstance props w of
             Inl e \<Rightarrow> Inl e
           | Inr (outcome, w') \<Rightarrow> Inr w')"
    if "\<not> (kind (target w) = AutoScalingGroup \<and> node_id (target w) = ''FckNatAsg'')"
  proof
    assume "visit props w =
          (case convertToSpotInstance props w of
             Inl e \<Rightarrow> Inl e
           | Inr (outcome, w') \<Rightarrow> Inr w')"
    with that have "(case convertToSpotInstance props w of
             Inl e \<Rightarrow> Inl e
           | Inr (outcome, w') \<Rightarrow> Inr w') = Inr w"
      by (simp add: visit_unmatched)
    then obtain outcome where "convertToSpotInstance props w = Inr (outcome, w)"
      by (auto split: sum.splits)
    then show False by (simp add: convert_leaves_trace)
  qed
  then show ?thesis
    using visit_matched [of w props] visit_unmatched [of w props] by blast
qed

theorem visit_delegates_iff_match_witness:
  "visit defaultProps sampleWorld
     = Inr (rewrittenWorld (Some (sampleParent ''t4g.nano'')) nanoPolicy [marker])
   \<and> visit defaultProps (sampleWorld\<lparr>target := (target sampleWorld)\<lparr>node_id := ''OtherAsg''\<rparr>\<rparr>)
     = Inr (sampleWorld\<lparr>target := (target sampleWorld)\<lparr>node_id := ''OtherAsg''\<rparr>\<rparr>)
   \<and> visit defaultProps
       (sampleWorld\<lparr>target := (target sampleWorld)\<lparr>kind := OtherConstruct ''Vpc''\<rparr>\<rparr>)
     = Inr (sampleWorld\<lparr>target := (target sampleWorld)\<lparr>kind := OtherConstruct ''Vpc''\<rparr>\<rparr>)"
proof -
  have m: "kind (target sampleWorld) = AutoScalingGroup \<and> node_id (target sampleWorld) = ''FckNatAsg''"
    by (simp add: sample_defs)
  have 1: "visit defaultProps sampleWorld
     = Inr (rewrittenWorld (Some (sampleParent ''t4g.nano'')) nanoPolicy [marker])"
    using visit_delegates_iff_match [of defaultProps sampleWorld] m
    by (simp add: convert_sample)
  have 2: "visit defaultProps (sampleWorld\<lparr>target := (target sampleWorld)\<lparr>node_id := ''OtherAsg''\<rparr>\<rparr>)
     = Inr (sampleWorld\<lparr>target := (target sampleWorld)\<lparr>node_id := ''OtherAsg''\<rparr>\<rparr>)"
    using visit_delegates_iff_match
      [of defaultProps "sampleWorld\<lparr>target := (target sampleWorld)\<lparr>node_id := ''OtherAsg''\<rparr>\<rparr>"]
    by (simp add: sample_defs)
  have 3: "visit defaultProps
       (sampleWorld\<lparr>target := (target sampleWorld)\<lparr>kind := OtherConstruct ''Vpc''\<rparr>\<rparr>)
     = Inr (sampleWorld\<lparr>target := (target sampleWorld)\<lparr>kind := OtherConstruct ''Vpc''\<rparr>\<rparr>)"
    using visit_delegates_iff_match
      [of defaultProps "sampleWorld\<lparr>target := (target sampleWorld)\<lparr>kind := OtherConstruct ''Vpc''\<rparr>\<rparr>"]
    by (simp add: sample_defs)
  from 1 2 3 show ?thesis by blast
qed

text \<open>
  C9. Every rewrite that installs a mixed-instances policy installs one whose on-demand
  percentage above base capacity is 0: the policy is the one stored in the default child,
  it has an instances distribution, and the percentage there is 0.
\<close>

theorem on_demand_percentage_zero:
  assumes "convertToSpotInstance props w = Inr (Mutated policy, w')"
  shows "\<exists>cfn d. defaultChild (target w') = Some cfn
           \<and> mixedInstancesPolicy cfn = Some policy
           \<and> instancesDistribution policy = Some d
           \<and> onDemandPercentageAboveBaseCapacity d = Some 0"
  using assms
  by (auto simp: convertToSpotInstance_def mixedInstancesPolicyOf_def addMetadata_def
      addPropertyDeletionOverride_def Let_def split: option.splits sum.splits)

theorem on_demand_percentage_zero_witness:
  "convertToSpotInstance defaultProps sampleWorld =
     Inr (Mutated nanoPolicy, rewrittenWorld (Some (sampleParent ''t4g.nano'')) nanoPolicy [marker])
   \<and> (\<exists>cfn d. defaultChild
                 (target (rewrittenWorld (Some (sampleParent ''t4g.nano'')) nanoPolicy [marker]))
               = Some cfn
           \<and> mixedInstancesPolicy cfn = Some nanoPolicy
           \<and> instancesDistribution nanoPolicy = Some d
           \<and> onDemandPercentageAboveBaseCapacity d = Some 0)"
  using on_demand_percentage_zero [OF convert_sample] convert_sample by simp

text \<open>
  C10. A node that does not match, because its identifier is not \<^verbatim>\<open>FckNatAsg\<close>
  or because it is not an auto scaling group, is not written to: \<^verbatim>\<open>visit\<close>
  returns without an exception and the state after it is the state before it, the
  construct, its default child with the property bag, and the console alike.
\<close>

theorem visit_leaves_unmatched_untouched:
  assumes "node_id (target w) \<noteq> ''FckNatAsg'' \<or> kind (target w) \<noteq> AutoScalingGroup"
  shows "visit props w = Inr w"
  using assms by (auto simp: visit_def)

theorem visit_leaves_unmatched_untouched_witness:
  "node_id (target (sampleWorld\<lparr>target := (target sampleWorld)\<lparr>kind := OtherConstruct ''Bucket''\<rparr>\<rparr>))
     = ''FckNatAsg''
   \<and> kind (target (sampleWorld\<lparr>target := (target sampleWorld)\<lparr>kind := OtherConstruct ''Bucket''\<rparr>\<rparr>))
     \<noteq> AutoScalingGroup
   \<and> visit defaultProps
       (sampleWorld\<lparr>target := (target sampleWorld)\<lparr>kind := OtherConstruct ''Bucket''\<rparr>\<rparr>)
     = Inr (sampleWorld\<lparr>target := (target sampleWorld)\<lparr>kind := OtherConstruct ''Bucket''\<rparr>\<rparr>)"
proof -
  have h: "kind (target (sampleWorld\<lparr>target := (target sampleWorld)\<lparr>kind := OtherConstruct ''Bucket''\<rparr>\<rparr>))
     \<noteq> AutoScalingGroup"
    by simp
  have i: "node_id (target (sampleWorld\<lparr>target := (target sampleWorld)\<lparr>kind := OtherConstruct ''Bucket''\<rparr>\<rparr>))
     = ''FckNatAsg''"
    by (simp add: sample_defs)
  from h i visit_leaves_unmatched_untouched [OF disjI2 [OF h], of defaultProps]
  show ?thesis by simp
qed

text \<open>
  C1 (as the code has it). A matched node whose resource has a launch template before
  the rewrite, and whose parent can be probed without an exception: the rewrite ends
  normally with a policy installed. After it the attribute \<^verbatim>\<open>launchTemplate\<close>
  of the resource is still set, to the value it had: the removal is recorded as an
  override that deletes the property \<^verbatim>\<open>LaunchTemplate\<close>, and every other
  override is as before. The attribute \<^verbatim>\<open>mixedInstancesPolicy\<close> holds the
  installed policy, and the launch template id and version inside the policy are those
  of the launch template read before the rewrite.
\<close>

theorem rewrite_installs_policy_keeps_attribute:
  assumes "kind (target w) = AutoScalingGroup" and "node_id (target w) = ''FckNatAsg''"
    and "defaultChild (target w) = Some cfn" and "launchTemplate cfn = Some lt"
    and "getInstanceTypeFromAsg (target w) = Inr hint"
  shows "\<exists>policy w' cfn'.
           convertToSpotInstance props w = Inr (Mutated policy, w')
         \<and> visit props w = Inr w'
         \<and> defaultChild (target w') = Some cfn'
         \<and> launchTemplate cfn' = Some lt
         \<and> rawOverrides cfn' = (rawOverrides cfn)(''LaunchTemplate'' \<mapsto> OverrideUndefined)
         \<and> mixedInstancesPolicy cfn' = Some policy
         \<and> launchTemplateId (launchTemplateSpecification (mip_launchTemplate policy))
             = launchTemplateId lt
         \<and> version (launchTemplateSpecification (mip_launchTemplate policy)) = version lt"
  using assms
  by (simp add: visit_def convertToSpotInstance_def mixedInstancesPolicyOf_def
      addPropertyDeletionOverride_def addMetadata_def Let_def)

theorem rewrite_installs_policy_keeps_attribute_witness:
  "kind (target sampleWorld) = AutoScalingGroup
   \<and> node_id (target sampleWorld) = ''FckNatAsg''
   \<and> defaultChild (target sampleWorld) = Some sampleResource
   \<and> launchTemplate sampleResource = Some sampleTemplate
   \<and> getInstanceTypeFromAsg (target sampleWorld) = Inr (Some ''t4g.nano'')
   \<and> (\<exists>policy w' cfn'.
           convertToSpotInstance defaultProps sampleWorld = Inr (Mutated policy, w')
         \<and> visit defaultProps sampleWorld = Inr w'
         \<and> defaultChild (target w') = Some cfn'
         \<and> launchTemplate cfn' = Some sampleTemplate
         \<and> rawOverrides cfn'
             = (rawOverrides sampleResource)(''LaunchTemplate'' \<mapsto> OverrideUndefined)
         \<and> mixedInstancesPolicy cfn' = Some policy
         \<and> launchTemplateId (launchTemplateSpecification (mip_launchTemplate policy))
             = launchTemplateId sampleTemplate
         \<and> version (launchTemplateSpecification (mip_launchTemplate policy))
             = version sampleTemplate)"
proof -
  have k: "kind (target sampleWorld) = AutoScalingGroup"
    and i: "node_id (target sampleWorld) = ''FckNatAsg''"
    and c: "defaultChild (target sampleWorld) = Some sampleResource"
    and l: "launchTemplate sampleResource = Some sampleTemplate"
    and g: "getInstanceTypeFromAsg (target sampleWorld) = Inr (Some ''t4g.nano'')"
    by (simp_all add: sample_defs getInstanceTypeFromAsg_def)
  from rewrite_installs_policy_keeps_attribute [OF k i c l g, of defaultProps] k i c l g
  show ?thesis by blast
qed

text \<open>
  C1 as stated fails on the sample: the node matches and its resource has a launch
  template; after the rewrite the resource still has it, as the attribute that
  \<^verbatim>\<open>cfnAsg.launchTemplate\<close> reads.
\<close>

theorem launch_template_attribute_kept_counterexample:
  "kind (target sampleWorld) = AutoScalingGroup
   \<and> node_id (target sampleWorld) = ''FckNatAsg''
   \<and> defaultChild (target sampleWorld) = Some sampleResource
   \<and> launchTemplate sampleResource = Some sampleTemplate
   \<and> convertToSpotInstance defaultProps sampleWorld =
       Inr (Mutated nanoPolicy, rewrittenWorld (Some (sampleParent ''t4g.nano'')) nanoPolicy [marker])
   \<and> defaultChild (target (rewrittenWorld (Some (sampleParent ''t4g.nano'')) nanoPolicy [marker]))
       = Some (rewrittenResource nanoPolicy)
   \<and> launchTemplate (rewrittenResource nanoPolicy) = Some sampleTemplate"
  by (simp add: method_defs sample_defs Let_def)

text \<open>
  C2 (as the code has it). The rewrite does not take the attribute
  \<^verbatim>\<open>launchTemplate\<close> away, so once it has mutated a node, the resource carries
  the attributes \<^verbatim>\<open>launchTemplate\<close> and \<^verbatim>\<open>mixedInstancesPolicy\<close> side
  by side, and a later pass or reader finds both. What the order of lines 85 and 107
  gives is this: in every state the rewrite passes through after its first effect, the
  returned one included, the two attributes are set together only when the override that
  deletes \<^verbatim>\<open>LaunchTemplate\<close> is recorded; after a mutation that override is
  recorded in every one of these states.
\<close>

theorem attributes_coexist_only_with_deletion:
  assumes "convertToSpotInstance props w = Inr (outcome, w')"
  shows "convertStates props w \<noteq> []
       \<and> last (convertStates props w) = w'
       \<and> (\<forall>s \<in> set (convertStates props w). bothAttributes s \<longrightarrow> deletionRecorded s)
       \<and> (\<forall>policy. outcome = Mutated policy \<longrightarrow>
             bothAttributes w' \<and> (\<forall>s \<in> set (convertStates props w). deletionRecorded s))"
proof (cases "defaultChild (target w)")
  case None
  with assms show ?thesis by (simp add: convertToSpotInstance_def)
next
  case child: (Some cfnAsg)
  show ?thesis
  proof (cases "launchTemplate cfnAsg")
    case None
    with child assms show ?thesis
      by (auto simp: convertToSpotInstance_def convertStates_def bothAttributes_def)
  next
    case lt: (Some lt)
    show ?thesis
    proof (cases "getInstanceTypeFromAsg (target w)")
      case (Inl e)
      with child lt assms show ?thesis by (simp add: convertToSpotInstance_def)
    next
      case (Inr hint)
      with child lt assms show ?thesis
        by (auto simp: convertToSpotInstance_def convertStates_def bothAttributes_def
            deletionRecorded_def addPropertyDeletionOverride_def addMetadata_def Let_def)
    qed
  qed
qed

theorem attributes_coexist_only_with_deletion_witness:
  "convertToSpotInstance defaultProps sampleWorld =
     Inr (Mutated nanoPolicy, rewrittenWorld (Some (sampleParent ''t4g.nano'')) nanoPolicy [marker])
   \<and> length (convertStates defaultProps sampleWorld) = 3
   \<and> last (convertStates defaultProps sampleWorld)
       = rewrittenWorld (Some (sampleParent ''t4g.nano'')) nanoPolicy [marker]
   \<and> deletionRecorded (convertStates defaultProps sampleWorld ! 0)
   \<and> deletionRecorded (convertStates defaultProps sampleWorld ! 1)
   \<and> deletionRecorded (convertStates defaultProps sampleWorld ! 2)
   \<and> bothAttributes (rewrittenWorld (Some (sampleParent ''t4g.nano'')) nanoPolicy [marker])"
proof -
  have n: "length (convertStates defaultProps sampleWorld) = 3"
    by (simp add: convertStates_def getInstanceTypeFromAsg_def sample_defs Let_def)
  then have "convertStates defaultProps sampleWorld ! 0 \<in> set (convertStates defaultProps sampleWorld)"
    and "convertStates defaultProps sampleWorld ! 1 \<in> set (convertStates defaultProps sampleWorld)"
    and "convertStates defaultProps sampleWorld ! 2 \<in> set (convertStates defaultProps sampleWorld)"
    by simp_all
  with attributes_coexist_only_with_deletion [OF convert_sample] convert_sample n
  show ?thesis by blast
qed

text \<open>
  C2 as stated fails on the sample: in the state the rewrite returns, the one any later
  pass or reader finds, the resource has both the launch template and the
  mixed-instances policy.
\<close>

theorem both_attributes_after_rewrite_counterexample:
  "visit defaultProps sampleWorld
     = Inr (rewrittenWorld (Some (sampleParent ''t4g.nano'')) nanoPolicy [marker])
   \<and> defaultChild (target (rewrittenWorld (Some (sampleParent ''t4g.nano'')) nanoPolicy [marker]))
       = Some (rewrittenResource nanoPolicy)
   \<and> launchTemplate (rewrittenResource nanoPolicy) = Some sampleTemplate
   \<and> mixedInstancesPolicy (rewrittenResource nanoPolicy) = Some nanoPolicy
   \<and> bothAttributes (rewrittenWorld (Some (sampleParent ''t4g.nano'')) nanoPolicy [marker])"
  by (simp add: visit_def method_defs sample_defs bothAttributes_def Let_def)



text \<open>
  C3 (as the code has it). A second pass over a node that the first pass mutated is not
  skipped. The guard of the rewrite reads the attribute \<^verbatim>\<open>launchTemplate\<close>,
  which the deletion override leaves in place, so the second pass runs the rewrite again:
  it raises no error and writes no warning, installs the same policy, leaves the resource
  (attributes, overrides, property bag) as the first pass left it, and appends one more
  \<^verbatim>\<open>fck-nat:spot-enabled\<close> entry to the metadata of the node.
\<close>

theorem second_pass_repeats_rewrite:
  assumes "convertToSpotInstance props w = Inr (Mutated policy, w1)"
  shows "\<exists>w2. convertToSpotInstance props w1 = Inr (Mutated policy, w2)
         \<and> defaultChild (target w2) = defaultChild (target w1)
         \<and> console w2 = console w1
         \<and> node_metadata (target w2)
             = node_metadata (target w1) @ [(''fck-nat:spot-enabled'', ''true'')]"
proof (cases "defaultChild (target w)")
  case None
  with assms show ?thesis by (simp add: convertToSpotInstance_def)
next
  case child: (Some cfnAsg)
  show ?thesis
  proof (cases "launchTemplate cfnAsg")
    case None
    with child assms show ?thesis by (simp add: convertToSpotInstance_def)
  next
    case (Some lt)
    with child assms show ?thesis
      by (auto simp: method_defs Let_def split: sum.splits)
  qed
qed

theorem second_pass_repeats_rewrite_witness:
  "convertToSpotInstance defaultProps sampleWorld =
     Inr (Mutated nanoPolicy, rewrittenWorld (Some (sampleParent ''t4g.nano'')) nanoPolicy [marker])
   \<and> (\<exists>w2. convertToSpotInstance defaultProps
               (rewrittenWorld (Some (sampleParent ''t4g.nano'')) nanoPolicy [marker])
             = Inr (Mutated nanoPolicy, w2)
         \<and> defaultChild (target w2)
             = defaultChild (target (rewrittenWorld (Some (sampleParent ''t4g.nano'')) nanoPolicy [marker]))
         \<and> console w2 = console (rewrittenWorld (Some (sampleParent ''t4g.nano'')) nanoPolicy [marker])
         \<and> node_metadata (target w2)
             = node_metadata (target (rewrittenWorld (Some (sampleParent ''t4g.nano'')) nanoPolicy [marker]))
               @ [(''fck-nat:spot-enabled'', ''true'')])"
  using second_pass_repeats_rewrite [OF convert_sample] convert_sample by blast

text \<open>
  C3 as stated fails on the sample: the first pass mutates the node, and the second pass
  over the result is again a mutation, not a skip; the node then carries the marker twice.
\<close>

theorem second_pass_not_skipped_counterexample:
  "convertToSpotInstance defaultProps sampleWorld =
     Inr (Mutated nanoPolicy, rewrittenWorld (Some (sampleParent ''t4g.nano'')) nanoPolicy [marker])
   \<and> convertToSpotInstance defaultProps
       (rewrittenWorld (Some (sampleParent ''t4g.nano'')) nanoPolicy [marker])
     = Inr (Mutated nanoPolicy,
            rewrittenWorld (Some (sampleParent ''t4g.nano'')) nanoPolicy [marker, marker])
   \<and> rewrittenWorld (Some (sampleParent ''t4g.nano'')) nanoPolicy [marker, marker]
     \<noteq> rewrittenWorld (Some (sampleParent ''t4g.nano'')) nanoPolicy [marker]"
  by (simp add: method_defs sample_defs Let_def)

text \<open>
  C6 (as the code has it). The rewrite has fatal paths. For a matched node whose default
  child is there, \<^verbatim>\<open>visit\<close> throws exactly when the resource has a launch
  template and the probe of the parent in line 82 throws, which is when the parent has an
  \<^verbatim>\<open>instanceType\<close> whose value has no callable \<^verbatim>\<open>toString\<close> (a
  TypeError) or whose reading or rendering throws. Without a launch template the parent
  is not probed and the outcome is skipped, whatever the parent; with a launch template
  and no parent, a parent without the property, or one whose value is nullish or renders
  to a string, the outcome is mutated.
\<close>

theorem rewrite_throws_only_on_parent_probe:
  assumes "kind (target w) = AutoScalingGroup" and "node_id (target w) = ''FckNatAsg''"
    and "defaultChild (target w) = Some cfn"
  shows "((\<exists>e. visit props w = Inl e)
            = (launchTemplate cfn \<noteq> None
               \<and> (\<exists>p. node_scope (target w) = Some p
                      \<and> (parent_instanceType p = PropertyUncallable
                         \<or> parent_instanceType p = PropertyThrows))))
       \<and> (launchTemplate cfn = None \<longrightarrow>
            (\<exists>w'. convertToSpotInstance props w = Inr (Skipped NoLaunchTemplateFound, w')
                 \<and> visit props w = Inr w'))
       \<and> (launchTemplate cfn \<noteq> None
            \<and> (node_scope (target w) = None
               \<or> (\<exists>p. node_scope (target w) = Some p
                      \<and> (parent_instanceType p = PropertyMissing
                         \<or> parent_instanceType p = PropertyNullish
                         \<or> (\<exists>v. parent_instanceType p = PropertyValue v))))
            \<longrightarrow> (\<exists>policy w'. convertToSpotInstance props w = Inr (Mutated policy, w')
                             \<and> visit props w = Inr w'))
       \<and> (\<forall>p. launchTemplate cfn \<noteq> None \<and> node_scope (target w) = Some p
                \<and> parent_instanceType p = PropertyUncallable
              \<longrightarrow> convertToSpotInstance props w = Inl TypeError
                  \<and> visit props w = Inl TypeError)
       \<and> (\<forall>p. launchTemplate cfn \<noteq> None \<and> node_scope (target w) = Some p
                \<and> parent_instanceType p = PropertyThrows
              \<longrightarrow> convertToSpotInstance props w = Inl Thrown
                  \<and> visit props w = Inl Thrown)"
proof (cases "launchTemplate cfn")
  case None
  with assms show ?thesis
    by (simp add: visit_def convertToSpotInstance_def)
next
  case lt: (Some lt)
  show ?thesis
  proof (cases "node_scope (target w)")
    case None
    with assms lt show ?thesis
      by (simp add: visit_def convertToSpotInstance_def getInstanceTypeFromAsg_def Let_def)
  next
    case (Some p)
    with assms lt show ?thesis
      by (cases "parent_instanceType p")
        (simp_all add: visit_def convertToSpotInstance_def getInstanceTypeFromAsg_def Let_def)
  qed
qed

theorem rewrite_throws_only_on_parent_probe_witness:
  "visit defaultProps
     (worldOf (Some ((sampleParent ''t4g.nano'')\<lparr>parent_instanceType := PropertyUncallable\<rparr>))
        (Some sampleResource))
     = Inl TypeError
   \<and> (\<exists>w'. visit defaultProps
               (worldOf (Some ((sampleParent ''t4g.nano'')\<lparr>parent_instanceType := PropertyUncallable\<rparr>))
                  (Some (sampleResource\<lparr>launchTemplate := None\<rparr>)))
             = Inr w')
   \<and> (\<exists>w'. visit defaultProps sampleWorld = Inr w')"
proof -
  let ?q = "(sampleParent ''t4g.nano'')\<lparr>parent_instanceType := PropertyUncallable\<rparr>"
  let ?a = "worldOf (Some ?q) (Some sampleResource)"
  let ?b = "worldOf (Some ?q) (Some (sampleResource\<lparr>launchTemplate := None\<rparr>))"
  have ka: "kind (target ?a) = AutoScalingGroup"
    and ia: "node_id (target ?a) = ''FckNatAsg''"
    and ca: "defaultChild (target ?a) = Some sampleResource"
    and la: "launchTemplate sampleResource \<noteq> None"
    and sa: "node_scope (target ?a) = Some ?q"
    and qa: "parent_instanceType ?q = PropertyUncallable"
    by (simp_all add: sample_defs)
  have kb: "kind (target ?b) = AutoScalingGroup"
    and ib: "node_id (target ?b) = ''FckNatAsg''"
    and cb: "defaultChild (target ?b) = Some (sampleResource\<lparr>launchTemplate := None\<rparr>)"
    and lb: "launchTemplate (sampleResource\<lparr>launchTemplate := None\<rparr>) = None"
    by (simp_all add: sample_defs)
  have kc: "kind (target sampleWorld) = AutoScalingGroup"
    and ic: "node_id (target sampleWorld) = ''FckNatAsg''"
    and cc: "defaultChild (target sampleWorld) = Some sampleResource"
    and sc: "node_scope (target sampleWorld) = Some (sampleParent ''t4g.nano'')"
    and qc: "parent_instanceType (sampleParent ''t4g.nano'') = PropertyValue ''t4g.nano''"
    by (simp_all add: sample_defs)
  from rewrite_throws_only_on_parent_probe [OF ka ia ca, of defaultProps] la sa qa
  have 1: "visit defaultProps ?a = Inl TypeError"
    by blast
  from rewrite_throws_only_on_parent_probe [OF kb ib cb, of defaultProps] lb
  have 2: "\<exists>w'. visit defaultProps ?b = Inr w'"
    by blast
  from rewrite_throws_only_on_parent_probe [OF kc ic cc, of defaultProps] la sc qc
  have 3: "\<exists>w'. visit defaultProps sampleWorld = Inr w'"
    by blast
  from 1 2 3 show ?thesis by blast
qed

text \<open>
  C6 as stated fails for a matched node without a default child: the read of
  \<^verbatim>\<open>cfnAsg.launchTemplate\<close> in line 71 throws a TypeError, out of the rewrite and
  out of \<^verbatim>\<open>visit\<close>.
\<close>

theorem absent_default_child_counterexample:
  "kind (target (worldOf (Some (sampleParent ''t4g.nano'')) None)) = AutoScalingGroup
   \<and> node_id (target (worldOf (Some (sampleParent ''t4g.nano'')) None)) = ''FckNatAsg''
   \<and> defaultChild (target (worldOf (Some (sampleParent ''t4g.nano'')) None)) = None
   \<and> convertToSpotInstance defaultProps (worldOf (Some (sampleParent ''t4g.nano'')) None)
       = Inl TypeError
   \<and> visit defaultProps (worldOf (Some (sampleParent ''t4g.nano'')) None) = Inl TypeError"
  by (simp add: visit_def convertToSpotInstance_def sample_defs)









end
